theory Spec2Isabelle
  imports Complex_Main "HOL-Library.AList"
begin

section \<open>Numbers\<close>

text \<open>
  JavaScript numbers are modelled as exact reals. Rounding of IEEE doubles, NaN and the
  infinities are outside this model; every statement below about a weight or a sum is a
  statement of exact arithmetic.
\<close>

section \<open>Market data service (app/data-service.ts)\<close>

text \<open>
  The external quote library is a parameter: \<open>quote\<close> and \<open>historical\<close> give
  \<open>None\<close> where the call rejects, and otherwise the fields the code reads.
  \<open>historical\<close> gives the closing prices in order.
\<close>

record quoteResult =
  regularMarketPrice :: real
  regularMarketChangePercent :: real
  regularMarketVolume :: real

record yahooFinance =
  quote :: "string \<Rightarrow> quoteResult option"
  historical :: "string \<Rightarrow> real list option"

record etfInfo =
  etf_description :: string
  etf_price :: "real option"
  etf_change :: "real option"
  etf_volume :: "real option"
  etf_threeMonthReturn :: "real option"

type_synonym ETFData = "(string \<times> etfInfo) list"

datatype outlook = Positive | Negative

datatype impact = Sentiment bool real | Plain string

record marketAnalysisIn =
  mc_description :: string
  mc_factors :: "(string \<times> impact) list"

record MarketConditions =
  globalOutlook :: outlook
  spReturn :: real
  volatilityIndex :: "real option"
  marketAnalysis :: marketAnalysisIn

definition ETF_SYMBOLS :: "(string \<times> string) list" where
  "ETF_SYMBOLS =
    [(''Satrix Top 40 ETF'', ''STX40.JO''),
     (''CoreShares Total World Stock ETF'', ''GLOBAL.JO''),
     (''Satrix SA Bond ETF'', ''STXGOV.JO''),
     (''NewGold ETF'', ''GLD.JO''),
     (''Satrix MSCI World ETF'', ''STXWDM.JO''),
     (''Sygnia Itrix 4th Industrial Revolution Global Equity ETF'', ''SYG4IR.JO''),
     (''CoreShares S&P South Africa Dividend Aristocrats ETF'', ''DIVTRX.JO''),
     (''Ashburton MidCap ETF'', ''ASHMID.JO''),
     (''Satrix Property ETF'', ''STXPRO.JO''),
     (''Sygnia FAANG Plus Equity ETF'', ''FAANG.JO''),
     (''CoreShares S&P Global Dividend Aristocrats ETF'', ''GLODIV.JO''),
     (''Satrix MSCI Emerging Markets ETF'', ''STXEMG.JO''),
     (''Satrix Fini ETF'', ''STXFIN.JO'')]"

text \<open>
  The body of the per-symbol \<open>try\<close> in \<open>getETFData\<close>: the quote first, then the
  history; either rejection lands in the \<open>catch\<close>, which keeps the description only.
  (Where the first close is 0 JavaScript yields a non-finite number for the return; the
  real division here does not represent that, and nothing below depends on that field.)
\<close>

definition fetchOne :: "yahooFinance \<Rightarrow> string \<Rightarrow> string \<Rightarrow> etfInfo" where
  "fetchOne yf name symbol =
    (case quote yf symbol of
       None \<Rightarrow> \<lparr>etf_description = name, etf_price = None, etf_change = None,
                 etf_volume = None, etf_threeMonthReturn = None\<rparr>
     | Some q \<Rightarrow>
        (case historical yf symbol of
           None \<Rightarrow> \<lparr>etf_description = name, etf_price = None, etf_change = None,
                     etf_volume = None, etf_threeMonthReturn = None\<rparr>
         | Some historicalData \<Rightarrow>
            \<lparr>etf_description = name,
             etf_price = Some (regularMarketPrice q),
             etf_change = Some (regularMarketChangePercent q),
             etf_volume = Some (regularMarketVolume q),
             etf_threeMonthReturn =
               (case historicalData of
                  [] \<Rightarrow> None
                | close0 # _ \<Rightarrow> Some ((regularMarketPrice q - close0) / close0 * 100))\<rparr>))"

text \<open>
  \<open>getETFData\<close>: one entry per name of \<open>ETF_SYMBOLS\<close>, assigned in order. The inner
  \<open>catch\<close> absorbs every rejection, so the outer \<open>catch\<close> is never entered.
\<close>

definition getETFData :: "yahooFinance \<Rightarrow> ETFData" where
  "getETFData yf =
    foldl (\<lambda>etfData (name, symbol). AList.update name (fetchOne yf name symbol) etfData)
      [] ETF_SYMBOLS"

definition generateMarketDescription :: "real \<Rightarrow> real option \<Rightarrow> string" where
  "generateMarketDescription spRet vix =
    (let description =
       (if spRet > 2 then ''Markets are showing strong bullish momentum''
        else if spRet > 0 then ''Markets are slightly positive with moderate growth potential''
        else if spRet > -2 then ''Markets are showing slight weakness but remain stable''
        else ''Markets are experiencing significant downward pressure'')
     in case vix of
          None \<Rightarrow> description
        | Some v \<Rightarrow>
           (if v = 0 then description
            else if v < 15 then description @ '', with low volatility indicating stable conditions''
            else if v < 25 then description @ '', with moderate market volatility''
            else description @ '', with high volatility suggesting increased uncertainty''))"

definition generateMarketFactors :: "real \<Rightarrow> real option \<Rightarrow> (string \<times> impact) list" where
  "generateMarketFactors spRet vix =
    [(''S&P 500 Performance'', Sentiment (spRet > 0) spRet)]
    @ (case vix of
         None \<Rightarrow> []
       | Some v \<Rightarrow>
          (if v = 0 then []
           else [(''Market Volatility (VIX)'',
                  Plain (if v < 20 then ''Low risk environment''
                         else if v < 30 then ''Moderate market uncertainty''
                         else ''High market uncertainty''))]))
    @ [(''Portfolio Strategy'',
        Plain (if spRet > 0 then ''Favoring growth-oriented global ETFs''
               else ''Emphasizing defensive local market exposure''))]"

text \<open>
  \<open>getMarketConditions\<close>: both index quotes are awaited together; if either rejects the
  \<open>catch\<close> returns the fallback, which carries no \<open>volatilityIndex\<close> field.
\<close>

definition getMarketConditions :: "yahooFinance \<Rightarrow> MarketConditions" where
  "getMarketConditions yf =
    (case (quote yf ''^GSPC'', quote yf ''^VIX'') of
       (Some spyQuote, Some vixQuote) \<Rightarrow>
         (let spRet = regularMarketChangePercent spyQuote;
              vix = regularMarketPrice vixQuote
          in \<lparr>globalOutlook = (if spRet > 0 then Positive else Negative),
              spReturn = spRet,
              volatilityIndex = Some vix,
              marketAnalysis =
                \<lparr>mc_description = generateMarketDescription spRet (Some vix),
                 mc_factors = generateMarketFactors spRet (Some vix)\<rparr>\<rparr>)
     | _ \<Rightarrow>
         \<lparr>globalOutlook = Positive,
          spReturn = 0,
          volatilityIndex = None,
          marketAnalysis = \<lparr>mc_description = ''Market data unavailable'', mc_factors = []\<rparr>\<rparr>)"

section \<open>Allocation engine (generateAdvancedPortfolio)\<close>

datatype investmentKind = OnceOff | Monthly

record UserProfile =
  age :: real
  riskScore :: real
  investmentHorizon :: real
  incomeNeeds :: bool
  investmentType :: "investmentKind option"
  monthlyAmount :: "real option"

record portfolioEntry =
  allocation :: real
  description :: string
  price :: "real option"
  change :: "real option"
  volume :: "real option"
  threeMonthReturn :: "real option"

type_synonym Portfolio = "(string \<times> portfolioEntry) list"

text \<open>
  The rationale strings and the projection sentence interpolate numbers through
  \<open>toFixed\<close> and \<open>toLocaleString\<close>; each is represented by its template together with
  the numbers it prints. The returned description is the market description followed,
  when there is a projection, by a blank line and the projection sentence: it is
  represented by the pair of \<open>out_description\<close> and \<open>out_projection\<close>.
\<close>

datatype rationaleLine =
    AgeBasedEquity real real
  | RiskShift real real
  | HorizonYears real
  | IncomeRequirement
  | VolatilityAdjustment real
  | ProjectionAssumption
  | OutlookText string
  | FixedIncome real bool

record projection =
  proj_monthlyAmount :: real
  proj_years :: real
  proj_FV :: real

record marketAnalysisOut =
  out_description :: string
  out_projection :: "projection option"
  out_factors :: "(string \<times> impact) list"
  out_rationale :: "rationaleLine list"

record PortfolioWithAnalysis =
  portfolio :: Portfolio
  analysis :: marketAnalysisOut

datatype error = TypeError string

definition equityAllocation :: "UserProfile \<Rightarrow> real" where
  "equityAllocation userProfile = min 0.9 (max 0.1 ((110 - age userProfile) / 100))"

definition riskAdjustment :: "UserProfile \<Rightarrow> real" where
  "riskAdjustment userProfile = (riskScore userProfile - 5) / 10"

text \<open>\<open>marketConditions.volatilityIndex && marketConditions.volatilityIndex > 25\<close>\<close>

definition highVolatility :: "MarketConditions \<Rightarrow> bool" where
  "highVolatility marketConditions =
    (case volatilityIndex marketConditions of
       None \<Rightarrow> False
     | Some v \<Rightarrow> v \<noteq> 0 \<and> v > 25)"

text \<open>
  Lines 42 to 59: the pair (bondAllocation, adjustedEquityAllocation) as it stands when
  the instruments are selected.
\<close>

definition allocations :: "MarketConditions \<Rightarrow> UserProfile \<Rightarrow> real \<times> real" where
  "allocations marketConditions userProfile =
    (let bondAllocation = 1 - equityAllocation userProfile;
         adjustedEquityAllocation = equityAllocation userProfile + riskAdjustment userProfile * 0.2;
         adjustedEquityAllocation =
           (if highVolatility marketConditions then adjustedEquityAllocation * 0.9
            else adjustedEquityAllocation)
     in if incomeNeeds userProfile
        then (let bondAllocation = min 0.4 (bondAllocation + 0.1)
              in (bondAllocation, 1 - bondAllocation))
        else (bondAllocation, adjustedEquityAllocation))"

definition bondAllocation :: "MarketConditions \<Rightarrow> UserProfile \<Rightarrow> real" where
  "bondAllocation marketConditions userProfile = fst (allocations marketConditions userProfile)"

definition adjustedEquityAllocation :: "MarketConditions \<Rightarrow> UserProfile \<Rightarrow> real" where
  "adjustedEquityAllocation marketConditions userProfile =
    snd (allocations marketConditions userProfile)"

text \<open>
  Lines 76 to 85: the projection exists only for a monthly profile whose
  \<open>monthlyAmount\<close> and \<open>investmentHorizon\<close> are both truthy.
\<close>

definition futureValue :: "real \<Rightarrow> real \<Rightarrow> real" where
  "futureValue monthly years =
    (let r = 0.07 / 12; n = years * 12
     in monthly * (((1 + r) powr n - 1) / r) * (1 + r))"

definition monthlyProjection :: "UserProfile \<Rightarrow> projection option" where
  "monthlyProjection userProfile =
    (case monthlyAmount userProfile of
       None \<Rightarrow> None
     | Some m \<Rightarrow>
        (if investmentType userProfile = Some Monthly \<and> m \<noteq> 0
            \<and> investmentHorizon userProfile \<noteq> 0
         then Some \<lparr>proj_monthlyAmount = m,
                    proj_years = investmentHorizon userProfile,
                    proj_FV = futureValue m (investmentHorizon userProfile)\<rparr>
         else None))"

text \<open>
  Lines 87 to 194: the assignments \<open>portfolio[name] = {allocation, description, ...}\<close>
  in the order the chosen branch executes them, the bond instrument last.
\<close>

definition selection :: "MarketConditions \<Rightarrow> UserProfile \<Rightarrow> (string \<times> real \<times> string) list" where
  "selection marketConditions userProfile =
    (let adj = adjustedEquityAllocation marketConditions userProfile
     in (if globalOutlook marketConditions = Positive then
           (if incomeNeeds userProfile then
              [(''CoreShares S&P Global Dividend Aristocrats ETF'', adj * 0.4,
                  ''Global dividend-growing companies''),
               (''Satrix MSCI World ETF'', adj * 0.3, ''Global developed market exposure''),
               (''CoreShares S&P South Africa Dividend Aristocrats ETF'', adj * 0.3,
                  ''High-quality dividend-paying SA companies'')]
            else
              [(''Satrix MSCI World ETF'', adj * 0.6, ''Global developed market exposure''),
               (''Satrix MSCI Emerging Markets ETF'', adj * 0.4, ''Emerging markets exposure'')])
         else
           (if incomeNeeds userProfile then
              [(''CoreShares S&P South Africa Dividend Aristocrats ETF'', adj * 0.5,
                  ''High-quality dividend-paying SA companies''),
               (''Satrix Property ETF'', adj * 0.3, ''Local property income exposure''),
               (''Satrix Top 40 ETF'', adj * 0.2, ''Top 40 SA companies for growth'')]
            else
              [(''Satrix Top 40 ETF'', adj * 0.7, ''Tracks the 40 largest companies on the JSE''),
               (''CoreShares S&P South Africa Dividend Aristocrats ETF'', adj * 0.3,
                  ''High-quality dividend-paying SA companies'')]))
        @ [(''Satrix SA Bond ETF'', bondAllocation marketConditions userProfile,
              ''Exposure to South African government bonds'')])"

text \<open>
  One assignment: reading \<open>etfData[name].price\<close> throws a TypeError when the name has
  no entry; otherwise the entry is stored under the name (replacing an entry of the same
  name in place, appended otherwise, as a JavaScript object does).
\<close>

definition assign :: "ETFData \<Rightarrow> error + Portfolio \<Rightarrow> string \<times> real \<times> string \<Rightarrow> error + Portfolio" where
  "assign etfData acc row =
    (case acc of
       Inl e \<Rightarrow> Inl e
     | Inr pf \<Rightarrow>
        (case row of (name, alloc, desc) \<Rightarrow>
          (case map_of etfData name of
             None \<Rightarrow> Inl (TypeError name)
           | Some d \<Rightarrow>
              Inr (AList.update name
                    \<lparr>allocation = alloc, description = desc, price = etf_price d,
                     change = etf_change d, volume = etf_volume d,
                     threeMonthReturn = etf_threeMonthReturn d\<rparr> pf))))"

definition rationale :: "MarketConditions \<Rightarrow> UserProfile \<Rightarrow> rationaleLine list" where
  "rationale marketConditions userProfile =
    [AgeBasedEquity (equityAllocation userProfile * 100) (age userProfile),
     RiskShift (riskAdjustment userProfile * 20) (riskScore userProfile),
     HorizonYears (investmentHorizon userProfile)]
    @ (if incomeNeeds userProfile then [IncomeRequirement] else [])
    @ (case volatilityIndex marketConditions of
         None \<Rightarrow> []
       | Some v \<Rightarrow> (if v \<noteq> 0 \<and> v > 25 then [VolatilityAdjustment v] else []))
    @ (if monthlyProjection userProfile \<noteq> None then [ProjectionAssumption] else [])
    @ [OutlookText
        (if globalOutlook marketConditions = Positive then
           (if incomeNeeds userProfile
            then ''Global market outlook is positive: Balanced allocation between global and local dividend-paying ETFs''
            else ''Global market outlook is positive: Increased allocation to international markets'')
         else
           (if incomeNeeds userProfile
            then ''Market outlook is cautious: Focus on stable local dividend and property income''
            else ''Global market outlook is cautious: Focusing on stable local market exposure''))]
    @ [FixedIncome (bondAllocation marketConditions userProfile * 100) (incomeNeeds userProfile)]"

text \<open>Lines 197 to 201: the sum of the stored allocations, then each divided by it.\<close>

definition totalAllocation :: "Portfolio \<Rightarrow> real" where
  "totalAllocation pf = foldl (\<lambda>sum etf. sum + allocation etf) 0 (map snd pf)"

definition normalize :: "Portfolio \<Rightarrow> Portfolio" where
  "normalize pf =
    map (\<lambda>(etf, e). (etf, e\<lparr>allocation := allocation e / totalAllocation pf\<rparr>)) pf"

text \<open>The body of \<open>generateAdvancedPortfolio\<close> after its two awaits.\<close>

definition generateWith ::
  "ETFData \<Rightarrow> MarketConditions \<Rightarrow> UserProfile \<Rightarrow> real \<Rightarrow> error + PortfolioWithAnalysis" where
  "generateWith etfData marketConditions userProfile amount =
    (case foldl (assign etfData) (Inr []) (selection marketConditions userProfile) of
       Inl e \<Rightarrow> Inl e
     | Inr pf \<Rightarrow>
        Inr \<lparr>portfolio = normalize pf,
             analysis =
               \<lparr>out_description = mc_description (marketAnalysis marketConditions),
                out_projection = monthlyProjection userProfile,
                out_factors = mc_factors (marketAnalysis marketConditions),
                out_rationale = rationale marketConditions userProfile\<rparr>\<rparr>)"

definition generateAdvancedPortfolio ::
  "yahooFinance \<Rightarrow> UserProfile \<Rightarrow> real \<Rightarrow> error + PortfolioWithAnalysis" where
  "generateAdvancedPortfolio yf userProfile amount =
    generateWith (getETFData yf) (getMarketConditions yf) userProfile amount"

text \<open>The instrument weights of a result, in the order of the mapping.\<close>

definition weights :: "PortfolioWithAnalysis \<Rightarrow> (string \<times> real) list" where
  "weights r = map (\<lambda>(etf, e). (etf, allocation e)) (portfolio r)"

text \<open>
  The weights before normalisation, their sum, and the two legs of a result: the bond
  instrument's weight and the sum of the weights of all other instruments.
\<close>

definition rawWeights :: "MarketConditions \<Rightarrow> UserProfile \<Rightarrow> (string \<times> real) list" where
  "rawWeights marketConditions userProfile =
    map (\<lambda>(name, alloc, desc). (name, alloc)) (selection marketConditions userProfile)"

definition rawTotal :: "MarketConditions \<Rightarrow> UserProfile \<Rightarrow> real" where
  "rawTotal marketConditions userProfile =
    sum_list (map snd (rawWeights marketConditions userProfile))"

definition bondWeight :: "PortfolioWithAnalysis \<Rightarrow> real option" where
  "bondWeight r = map_of (weights r) ''Satrix SA Bond ETF''"

definition equityWeight :: "PortfolioWithAnalysis \<Rightarrow> real" where
  "equityWeight r =
    sum_list (map snd (filter (\<lambda>(etf, w). etf \<noteq> ''Satrix SA Bond ETF'') (weights r)))"

section \<open>Intake dialogue (generateBotResponse)\<close>

text \<open>
  Strings are byte strings. \<open>toLowerCase\<close> maps the ASCII capitals; no character
  outside ASCII lowers to a letter of the words compared below, so the comparisons agree
  with JavaScript's.
\<close>

definition isDigit :: "char \<Rightarrow> bool" where
  "isDigit c = (c \<in> set ''0123456789'')"

definition lowerChar :: "char \<Rightarrow> char" where
  "lowerChar c =
    (case map_of (zip ''ABCDEFGHIJKLMNOPQRSTUVWXYZ'' ''abcdefghijklmnopqrstuvwxyz'') c of
       None \<Rightarrow> c
     | Some l \<Rightarrow> l)"

definition toLowerCase :: "string \<Rightarrow> string" where
  "toLowerCase s = map lowerChar s"

definition digitValue :: "char \<Rightarrow> nat" where
  "digitValue c = (case map_of (zip ''0123456789'' [0, 1, 2, 3, 4, 5, 6, 7, 8, 9]) c of
                     None \<Rightarrow> 0 | Some d \<Rightarrow> d)"

definition digitsValue :: "string \<Rightarrow> nat" where
  "digitsValue ds = foldl (\<lambda>n c. 10 * n + digitValue c) 0 ds"

text \<open>
  \<open>parseFloat\<close> on a string of digits and dots reads the longest prefix that is a
  decimal literal (digits, optionally a dot and digits; or a dot and at least one digit);
  \<open>None\<close> is NaN. \<open>parseInt\<close> on a string of digits is NaN only on the empty string.
\<close>

definition parseFloat :: "string \<Rightarrow> real option" where
  "parseFloat s =
    (let ip = takeWhile isDigit s;
         rest = dropWhile isDigit s;
         fp = (case rest of
                 [] \<Rightarrow> []
               | c # t \<Rightarrow> if c = CHR ''.'' then takeWhile isDigit t else [])
     in if ip = [] \<and> fp = [] then None
        else Some (real (digitsValue ip) + real (digitsValue fp) / 10 ^ length fp))"

definition parseInt :: "string \<Rightarrow> real option" where
  "parseInt s = (if s = [] then None else Some (real (digitsValue s)))"

definition validateTimeHorizon :: "string \<Rightarrow> real option" where
  "validateTimeHorizon input =
    (case parseInt (filter isDigit (toLowerCase input)) of
       None \<Rightarrow> None
     | Some years \<Rightarrow> if years > 0 \<and> years \<le> 50 then Some years else None)"

definition validateRiskTolerance :: "string \<Rightarrow> string option" where
  "validateRiskTolerance input =
    (let risk = toLowerCase input
     in if risk \<in> set [''low'', ''medium'', ''high''] then Some risk else None)"

definition validateAmount :: "string \<Rightarrow> real option" where
  "validateAmount input =
    (case parseFloat (filter (\<lambda>c. isDigit c \<or> c = CHR ''.'') input) of
       None \<Rightarrow> None
     | Some amount \<Rightarrow> if amount > 0 then Some amount else None)"

text \<open>
  The dialogue's profile. \<open>investmentAmount\<close> and \<open>monthlyAmount\<close> hold
  \<open>amount.toString()\<close>, which is never the empty string; they are represented by the
  number printed, so their truthiness test is the presence test. The field names that
  the engine's profile also uses carry the prefix \<open>p_\<close>.
\<close>

record PartialProfile =
  investmentGoal :: "string option"
  timeHorizon :: "real option"
  riskTolerance :: "string option"
  p_incomeNeeds :: "string option"
  investmentAmount :: "real option"
  p_investmentType :: "investmentKind option"
  p_monthlyAmount :: "real option"

definition emptyProfile :: PartialProfile where
  "emptyProfile =
    \<lparr>investmentGoal = None, timeHorizon = None, riskTolerance = None, p_incomeNeeds = None,
     investmentAmount = None, p_investmentType = None, p_monthlyAmount = None\<rparr>"

text \<open>JavaScript truthiness of an optional string and of an optional number.\<close>

definition truthyS :: "string option \<Rightarrow> bool" where
  "truthyS v = (case v of None \<Rightarrow> False | Some s \<Rightarrow> s \<noteq> [])"

definition truthyN :: "real option \<Rightarrow> bool" where
  "truthyN v = (case v of None \<Rightarrow> False | Some n \<Rightarrow> n \<noteq> 0)"

text \<open>
  One call of \<open>generateBotResponse\<close>. The state is \<open>userProfile\<close>; it changes only
  where the source calls \<open>setUserProfile\<close>. The parameter \<open>advise\<close> stands for
  \<open>generatePortfolio\<close> followed by \<open>generateAdvice\<close>: the rendered advice, or
  \<open>None\<close> where \<open>generatePortfolio\<close> returns null. The result is the new state and
  \<open>botResponse\<close>.
\<close>

definition generateBotResponse ::
  "(PartialProfile \<Rightarrow> string option) \<Rightarrow> PartialProfile \<Rightarrow> string \<Rightarrow> PartialProfile \<times> string" where
  "generateBotResponse advise userProfile userInput =
    (if \<not> truthyS (investmentGoal userProfile) then
       (case validateAmount userInput of
          Some amount \<Rightarrow>
            (userProfile\<lparr>investmentGoal := Some userInput\<rparr>,
             ''How long do you plan to invest for? Please specify the number of years (e.g., 5 years, 10 years, etc.)'')
        | None \<Rightarrow> (userProfile, ''Please enter a valid investment amount (e.g., 10000)''))
     else if \<not> truthyN (timeHorizon userProfile) then
       (case validateTimeHorizon userInput of
          Some years \<Rightarrow>
            (userProfile\<lparr>timeHorizon := Some years\<rparr>,
             ''What's your risk tolerance? (Low, Medium, or High)'')
        | None \<Rightarrow>
            (userProfile, ''Please enter a valid time horizon in years (between 1 and 50 years)''))
     else if \<not> truthyS (riskTolerance userProfile) then
       (case validateRiskTolerance userInput of
          Some risk \<Rightarrow>
            (userProfile\<lparr>riskTolerance := Some risk\<rparr>,
             ''Do you need regular income from this investment? (Yes/No)'')
        | None \<Rightarrow> (userProfile, ''Please specify your risk tolerance as Low, Medium, or High''))
     else if \<not> truthyS (p_incomeNeeds userProfile) then
       (let incomeNeeds = toLowerCase userInput
        in if incomeNeeds = ''yes'' \<or> incomeNeeds = ''no''
           then (userProfile\<lparr>p_incomeNeeds := Some incomeNeeds\<rparr>,
                 ''How much are you planning to invest? (in Rands)'')
           else (userProfile, ''Please answer Yes or No regarding your income needs''))
     else if investmentAmount userProfile = None then
       (case validateAmount userInput of
          Some amount \<Rightarrow>
            (userProfile\<lparr>investmentAmount := Some amount\<rparr>,
             ''Is this a once-off lump sum investment or a recurring monthly investment? (Type 'once-off' or 'monthly')'')
        | None \<Rightarrow> (userProfile, ''Please enter a valid investment amount (e.g., 10000)''))
     else if p_investmentType userProfile = None then
       (let type = toLowerCase userInput
        in if type = ''once-off'' \<or> type = ''monthly''
           then (let updatedProfile =
                       userProfile\<lparr>p_investmentType :=
                         Some (if type = ''monthly'' then Monthly else OnceOff)\<rparr>
                 in if type = ''monthly''
                    then (updatedProfile,
                          ''What is the monthly amount you plan to invest? (in Rands)'')
                    else (updatedProfile,
                          (case advise updatedProfile of
                             Some advice \<Rightarrow> advice
                           | None \<Rightarrow> ''I apologize, but I couldn't generate a portfolio at this time. Please try again later.'')))
           else (userProfile,
                 ''Please specify 'once-off' for a lump sum or 'monthly' for a recurring investment.''))
     else if p_investmentType userProfile = Some Monthly \<and> p_monthlyAmount userProfile = None then
       (case validateAmount userInput of
          Some monthly \<Rightarrow>
            (let updatedProfile = userProfile\<lparr>p_monthlyAmount := Some monthly\<rparr>
             in (updatedProfile,
                 (case advise updatedProfile of
                    Some advice \<Rightarrow> advice
                  | None \<Rightarrow> ''I apologize, but I couldn't generate a portfolio at this time. Please try again later.'')))
        | None \<Rightarrow> (userProfile, ''Please enter a valid monthly investment amount (e.g., 1000)''))
     else
       (userProfile,
        ''I've already provided a portfolio recommendation. If you'd like a new one, please refresh the page to start over.''))"

text \<open>
  The request body \<open>generatePortfolio\<close> sends to the engine (lines 290 to 296): the
  default age, the score of the risk tier, the horizon (5 when falsy), the income flag and
  the investment type. It carries no \<open>monthlyAmount\<close>.
\<close>

definition requestProfile :: "PartialProfile \<Rightarrow> UserProfile" where
  "requestProfile profile =
    \<lparr>age = 30,
     riskScore = (if riskTolerance profile = Some ''low'' then 3
                  else if riskTolerance profile = Some ''medium'' then 5 else 8),
     investmentHorizon = (case timeHorizon profile of
                            None \<Rightarrow> 5
                          | Some years \<Rightarrow> if years = 0 then 5 else years),
     incomeNeeds = (p_incomeNeeds profile = Some ''yes''),
     investmentType = p_investmentType profile,
     monthlyAmount = None\<rparr>"

subsection \<open>The cursor of the dialogue\<close>

datatype field =
    InvestmentGoal | TimeHorizon | RiskTolerance | IncomeNeeds
  | InvestmentAmount | InvestmentType | MonthlyAmount

text \<open>The pending field: the condition of the first branch of the chain that is taken.\<close>

definition pendingField :: "PartialProfile \<Rightarrow> field option" where
  "pendingField userProfile =
    (if \<not> truthyS (investmentGoal userProfile) then Some InvestmentGoal
     else if \<not> truthyN (timeHorizon userProfile) then Some TimeHorizon
     else if \<not> truthyS (riskTolerance userProfile) then Some RiskTolerance
     else if \<not> truthyS (p_incomeNeeds userProfile) then Some IncomeNeeds
     else if investmentAmount userProfile = None then Some InvestmentAmount
     else if p_investmentType userProfile = None then Some InvestmentType
     else if p_investmentType userProfile = Some Monthly \<and> p_monthlyAmount userProfile = None
       then Some MonthlyAmount
     else None)"

text \<open>The test each branch applies to the input, and the re-prompt of its else-branch.\<close>

fun accepts :: "field \<Rightarrow> string \<Rightarrow> bool" where
  "accepts InvestmentGoal input = (validateAmount input \<noteq> None)"
| "accepts TimeHorizon input = (validateTimeHorizon input \<noteq> None)"
| "accepts RiskTolerance input = (validateRiskTolerance input \<noteq> None)"
| "accepts IncomeNeeds input = (toLowerCase input = ''yes'' \<or> toLowerCase input = ''no'')"
| "accepts InvestmentAmount input = (validateAmount input \<noteq> None)"
| "accepts InvestmentType input =
     (toLowerCase input = ''once-off'' \<or> toLowerCase input = ''monthly'')"
| "accepts MonthlyAmount input = (validateAmount input \<noteq> None)"

fun reprompt :: "field \<Rightarrow> string" where
  "reprompt InvestmentGoal = ''Please enter a valid investment amount (e.g., 10000)''"
| "reprompt TimeHorizon =
     ''Please enter a valid time horizon in years (between 1 and 50 years)''"
| "reprompt RiskTolerance = ''Please specify your risk tolerance as Low, Medium, or High''"
| "reprompt IncomeNeeds = ''Please answer Yes or No regarding your income needs''"
| "reprompt InvestmentAmount = ''Please enter a valid investment amount (e.g., 10000)''"
| "reprompt InvestmentType =
     ''Please specify 'once-off' for a lump sum or 'monthly' for a recurring investment.''"
| "reprompt MonthlyAmount = ''Please enter a valid monthly investment amount (e.g., 1000)''"

text \<open>A step is final when it leaves no pending field.\<close>

definition isFinal :: "PartialProfile \<Rightarrow> bool" where
  "isFinal userProfile = (pendingField userProfile = None)"

text \<open>The canonical order, and whether a field is present in the profile.\<close>

fun rank :: "field \<Rightarrow> nat" where
  "rank InvestmentGoal = 0"
| "rank TimeHorizon = 1"
| "rank RiskTolerance = 2"
| "rank IncomeNeeds = 3"
| "rank InvestmentAmount = 4"
| "rank InvestmentType = 5"
| "rank MonthlyAmount = 6"

fun isSet :: "field \<Rightarrow> PartialProfile \<Rightarrow> bool" where
  "isSet InvestmentGoal p = (investmentGoal p \<noteq> None)"
| "isSet TimeHorizon p = (timeHorizon p \<noteq> None)"
| "isSet RiskTolerance p = (riskTolerance p \<noteq> None)"
| "isSet IncomeNeeds p = (p_incomeNeeds p \<noteq> None)"
| "isSet InvestmentAmount p = (investmentAmount p \<noteq> None)"
| "isSet InvestmentType p = (p_investmentType p \<noteq> None)"
| "isSet MonthlyAmount p = (p_monthlyAmount p \<noteq> None)"

definition requiredFields :: "PartialProfile \<Rightarrow> field list" where
  "requiredFields p =
    [InvestmentGoal, TimeHorizon, RiskTolerance, IncomeNeeds, InvestmentAmount, InvestmentType]
    @ (if p_investmentType p = Some Monthly then [MonthlyAmount] else [])"

text \<open>
  The states of the dialogue: the empty profile, and every state one call leads to, for
  any input and any outcome of the portfolio request.
\<close>

inductive reachable :: "PartialProfile \<Rightarrow> bool" where
  start: "reachable emptyProfile"
| step: "reachable p \<Longrightarrow> reachable (fst (generateBotResponse advise p input))"

text \<open>A sequence of inputs, fed one call at a time.\<close>

definition run :: "(PartialProfile \<Rightarrow> string option) \<Rightarrow> PartialProfile \<Rightarrow> string list \<Rightarrow> PartialProfile" where
  "run advise p inputs = foldl (\<lambda>q input. fst (generateBotResponse advise q input)) p inputs"

section \<open>The basket table as the specification words it\<close>

text \<open>
  The decision table of the specification, keyed by outlook and income need, with the
  instruments it names: global dividend, global developed-market, local dividend,
  emerging-market, local property and local broad-market. Each row gives the fraction
  of the equity allocation.
\<close>

fun specBasket :: "outlook \<Rightarrow> bool \<Rightarrow> (string \<times> real) list" where
  "specBasket Positive True =
     [(''CoreShares S&P Global Dividend Aristocrats ETF'', 0.4),
      (''Satrix MSCI World ETF'', 0.3),
      (''CoreShares S&P South Africa Dividend Aristocrats ETF'', 0.3)]"
| "specBasket Positive False =
     [(''Satrix MSCI World ETF'', 0.6),
      (''Satrix MSCI Emerging Markets ETF'', 0.4)]"
| "specBasket Negative True =
     [(''CoreShares S&P South Africa Dividend Aristocrats ETF'', 0.5),
      (''Satrix Property ETF'', 0.3),
      (''Satrix Top 40 ETF'', 0.2)]"
| "specBasket Negative False =
     [(''Satrix Top 40 ETF'', 0.7),
      (''CoreShares S&P South Africa Dividend Aristocrats ETF'', 0.3)]"

section \<open>Sample inputs\<close>

text \<open>A provider on which every call rejects, and one that answers every call.\<close>

definition outage :: yahooFinance where
  "outage = \<lparr>quote = (\<lambda>symbol. None), historical = (\<lambda>symbol. None)\<rparr>"

definition calmMarket :: MarketConditions where
  "calmMarket =
    \<lparr>globalOutlook = Positive, spReturn = 1, volatilityIndex = Some 10,
     marketAnalysis = \<lparr>mc_description = [], mc_factors = []\<rparr>\<rparr>"

definition sampleProfile :: UserProfile where
  "sampleProfile =
    \<lparr>age = 30, riskScore = 5, investmentHorizon = 10, incomeNeeds = False,
     investmentType = Some OnceOff, monthlyAmount = None\<rparr>"

text \<open>Projections of the engine's outcome, and parametrised sample inputs.\<close>

definition bondWeightOf :: "error + PortfolioWithAnalysis \<Rightarrow> real option" where
  "bondWeightOf res = (case res of Inl e \<Rightarrow> None | Inr r \<Rightarrow> bondWeight r)"

definition equityWeightOf :: "error + PortfolioWithAnalysis \<Rightarrow> real option" where
  "equityWeightOf res = (case res of Inl e \<Rightarrow> None | Inr r \<Rightarrow> Some (equityWeight r))"

definition rationaleOf :: "error + PortfolioWithAnalysis \<Rightarrow> rationaleLine list" where
  "rationaleOf res = (case res of Inl e \<Rightarrow> [] | Inr r \<Rightarrow> out_rationale (analysis r))"

definition market :: "outlook \<Rightarrow> real option \<Rightarrow> MarketConditions" where
  "market out vix =
    \<lparr>globalOutlook = out, spReturn = 0, volatilityIndex = vix,
     marketAnalysis = \<lparr>mc_description = [], mc_factors = []\<rparr>\<rparr>"

definition profileOf :: "real \<Rightarrow> real \<Rightarrow> bool \<Rightarrow> UserProfile" where
  "profileOf a score income =
    \<lparr>age = a, riskScore = score, investmentHorizon = 10, incomeNeeds = income,
     investmentType = Some OnceOff, monthlyAmount = None\<rparr>"

definition weightsOf :: "error + PortfolioWithAnalysis \<Rightarrow> (string \<times> real) list option" where
  "weightsOf res = (case res of Inl e \<Rightarrow> None | Inr r \<Rightarrow> Some (weights r))"

definition projectionOf :: "error + PortfolioWithAnalysis \<Rightarrow> projection option" where
  "projectionOf res = (case res of Inl e \<Rightarrow> None | Inr r \<Rightarrow> out_projection (analysis r))"

definition monthlySaver :: "real option \<Rightarrow> UserProfile" where
  "monthlySaver m =
    \<lparr>age = 30, riskScore = 5, investmentHorizon = 5, incomeNeeds = False,
     investmentType = Some Monthly, monthlyAmount = m\<rparr>"

text \<open>
  The invariant of the dialogue: every field that is present holds a truthy value and
  follows its predecessor, and a monthly amount is present only for a monthly investment.
\<close>

definition inOrder :: "PartialProfile \<Rightarrow> bool" where
  "inOrder p =
    ((investmentGoal p = None \<or> truthyS (investmentGoal p))
     \<and> (timeHorizon p = None \<or> truthyN (timeHorizon p) \<and> investmentGoal p \<noteq> None)
     \<and> (riskTolerance p = None \<or> truthyS (riskTolerance p) \<and> timeHorizon p \<noteq> None)
     \<and> (p_incomeNeeds p = None \<or> truthyS (p_incomeNeeds p) \<and> riskTolerance p \<noteq> None)
     \<and> (investmentAmount p = None \<or> p_incomeNeeds p \<noteq> None)
     \<and> (p_investmentType p = None \<or> investmentAmount p \<noteq> None)
     \<and> (p_monthlyAmount p = None \<or> p_investmentType p = Some Monthly))"

definition scenarioInputs :: "string list" where
  "scenarioInputs = [''10000'', ''5 years'', ''medium'', ''no'', ''10000'', ''once-off'']"

section \<open>The engine always returns: lookups, assignments, normalisation\<close>

lemma getETFData_keys: "map fst (getETFData yf) = map fst ETF_SYMBOLS"
  by (simp add: getETFData_def ETF_SYMBOLS_def)

lemma getETFData_lookup:
  assumes "name \<in> set (map fst ETF_SYMBOLS)"
  shows "\<exists>d. map_of (getETFData yf) name = Some d"
proof -
  from assms have "name \<in> fst ` set (getETFData yf)"
    using getETFData_keys [of yf] by (metis set_map)
  then show ?thesis
    by (metis domIff dom_map_of_conv_image_fst not_Some_eq)
qed

lemma selection_names:
  "set (map fst (selection mc up)) \<subseteq> set (map fst ETF_SYMBOLS)"
  by (cases "globalOutlook mc"; cases "incomeNeeds up")
     (simp_all add: selection_def Let_def ETF_SYMBOLS_def)

lemma selection_distinct: "distinct (map fst (selection mc up))"
  by (cases "globalOutlook mc"; cases "incomeNeeds up")
     (simp_all add: selection_def Let_def)

lemma foldl_assign_Inl: "foldl (assign etfData) (Inl e) rows = Inl e"
  by (induction rows) (simp_all add: assign_def)

lemma update_fresh: "k \<notin> fst ` set pf \<Longrightarrow> AList.update k v pf = pf @ [(k, v)]"
  by (induction pf) auto

lemma foldl_assign_ok:
  assumes "distinct (map fst pf @ map fst rows)"
    and "\<forall>name \<in> set (map fst rows). \<exists>d. map_of etfData name = Some d"
  shows "\<exists>pf'. foldl (assign etfData) (Inr pf) rows = Inr (pf @ pf')
           \<and> map (\<lambda>(n, e). (n, allocation e)) pf' = map (\<lambda>(n, a, d). (n, a)) rows"
  using assms
proof (induction rows arbitrary: pf)
  case Nil
  then show ?case by simp
next
  case (Cons row rows)
  obtain name alloc desc where row: "row = (name, alloc, desc)"
    by (cases row) auto
  from Cons.prems(2) row obtain d where d: "map_of etfData name = Some d"
    by auto
  let ?e = "\<lparr>allocation = alloc, description = desc, price = etf_price d,
              change = etf_change d, volume = etf_volume d,
              threeMonthReturn = etf_threeMonthReturn d\<rparr>"
  from Cons.prems(1) row have fresh: "name \<notin> fst ` set pf" by auto
  have step: "assign etfData (Inr pf) row = Inr (pf @ [(name, ?e)])"
    by (simp add: assign_def row d update_fresh [OF fresh])
  have dist: "distinct (map fst (pf @ [(name, ?e)]) @ map fst rows)"
    using Cons.prems(1) row by auto
  have look: "\<forall>name \<in> set (map fst rows). \<exists>d. map_of etfData name = Some d"
    using Cons.prems(2) by simp
  from Cons.IH [OF dist look] obtain pf' where
    pf': "foldl (assign etfData) (Inr (pf @ [(name, ?e)])) rows = Inr ((pf @ [(name, ?e)]) @ pf')"
      "map (\<lambda>(n, e). (n, allocation e)) pf' = map (\<lambda>(n, a, d). (n, a)) rows"
    by blast
  show ?case
    using step pf' unfolding row
    by (intro exI [of _ "(name, ?e) # pf'"]) simp
qed

lemma totalAllocation_sum: "totalAllocation pf = sum_list (map (\<lambda>(n, e). allocation e) pf)"
proof -
  have "foldl (\<lambda>sum etf. sum + allocation etf) a (map snd pf)
          = a + sum_list (map (\<lambda>(n, e). allocation e) pf)" for a
    by (induction pf arbitrary: a) (auto simp: algebra_simps)
  then show ?thesis by (simp add: totalAllocation_def)
qed

lemma normalize_weights:
  "map (\<lambda>(n, e). (n, allocation e)) (normalize pf)
     = map (\<lambda>(n, a). (n, a / totalAllocation pf)) (map (\<lambda>(n, e). (n, allocation e)) pf)"
  by (simp add: normalize_def case_prod_unfold)

lemma generateWith_weights:
  "\<exists>r. generateWith (getETFData yf) mc up amount = Inr r
     \<and> weights r = map (\<lambda>(n, a). (n, a / rawTotal mc up)) (rawWeights mc up)
     \<and> analysis r = \<lparr>out_description = mc_description (marketAnalysis mc),
                out_projection = monthlyProjection up,
                out_factors = mc_factors (marketAnalysis mc),
                out_rationale = rationale mc up\<rparr>"
proof -
  have look: "\<forall>name \<in> set (map fst (selection mc up)). \<exists>d. map_of (getETFData yf) name = Some d"
    using selection_names [of mc up] getETFData_lookup [of _ yf] by blast
  have dist: "distinct (map fst ([] :: Portfolio) @ map fst (selection mc up))"
    using selection_distinct [of mc up] by simp
  from foldl_assign_ok [OF dist look] obtain pf where
    pf: "foldl (assign (getETFData yf)) (Inr []) (selection mc up) = Inr pf"
      "map (\<lambda>(n, e). (n, allocation e)) pf = rawWeights mc up"
    by (auto simp: rawWeights_def)
  have tot: "totalAllocation pf = rawTotal mc up"
  proof -
    have "map (\<lambda>(n, e). allocation e) pf = map snd (map (\<lambda>(n, e). (n, allocation e)) pf)"
      by (simp add: case_prod_unfold)
    then show ?thesis by (simp add: totalAllocation_sum rawTotal_def pf(2))
  qed
  show ?thesis
    by (simp add: generateWith_def pf(1) weights_def normalize_weights pf(2) tot)
qed

subsection \<open>Bounds on the two legs\<close>

lemma rawTotal_eq: "rawTotal mc up = adjustedEquityAllocation mc up + bondAllocation mc up"
  by (cases "globalOutlook mc"; cases "incomeNeeds up")
     (simp_all add: rawTotal_def rawWeights_def selection_def Let_def)


lemma equityAllocation_bounds: "0.1 \<le> equityAllocation up \<and> equityAllocation up \<le> 0.9"
  by (simp add: equityAllocation_def)

lemma allocations_cases:
  "allocations mc up =
    (if incomeNeeds up
     then (min 0.4 (1 - equityAllocation up + 0.1), 1 - min 0.4 (1 - equityAllocation up + 0.1))
     else (1 - equityAllocation up,
           if highVolatility mc then (equityAllocation up + riskAdjustment up * 0.2) * 0.9
           else equityAllocation up + riskAdjustment up * 0.2))"
  by (simp add: allocations_def Let_def)

lemma bond_lower: "0.1 \<le> bondAllocation mc up"
  using equityAllocation_bounds [of up]
  by (cases "incomeNeeds up") (simp_all add: bondAllocation_def allocations_cases min_def)

lemma adjusted_lower:
  assumes "1 \<le> riskScore up" "riskScore up \<le> 10"
  shows "0.018 \<le> adjustedEquityAllocation mc up"
proof -
  have e: "0.1 \<le> equityAllocation up" "equityAllocation up \<le> 0.9"
    using equityAllocation_bounds [of up] by simp_all
  have r: "- 0.4 \<le> riskAdjustment up"
    using assms by (simp add: riskAdjustment_def)
  have base: "0.02 \<le> equityAllocation up + riskAdjustment up * 0.2"
    using e r by simp
  show ?thesis
  proof (cases "incomeNeeds up")
    case True
    then show ?thesis
      using e by (simp add: adjustedEquityAllocation_def allocations_cases min_def)
  next
    case False
    then show ?thesis
      using base by (cases "highVolatility mc")
        (simp_all add: adjustedEquityAllocation_def allocations_cases)
  qed
qed

lemma rawTotal_pos:
  assumes "1 \<le> riskScore up" "riskScore up \<le> 10"
  shows "0 < rawTotal mc up"
  using bond_lower [of mc up] adjusted_lower [OF assms, of mc]
  by (simp add: rawTotal_eq)

lemma sum_normalized:
  "sum_list (map snd (map (\<lambda>(n, a). (n, a / t)) xs)) = sum_list (map snd xs) / (t::real)"
  by (induction xs) (auto simp: add_divide_distrib)

lemma bounds_weight:
  fixes a t :: real
  assumes "0 < a" "a < t"
  shows "0 < a / t \<and> a / t < 1"
  using assms by simp

lemma risk_adjusted_lower:
  assumes "1 \<le> riskScore up" "riskScore up \<le> 10"
  shows "0.02 \<le> equityAllocation up + riskAdjustment up * 0.2"
proof -
  have e: "0.1 \<le> equityAllocation up"
    using equityAllocation_bounds [of up] by simp
  have r: "- 0.4 \<le> riskAdjustment up"
    using assms by (simp add: riskAdjustment_def)
  show ?thesis using e r by simp
qed

lemma weights_in_unit:
  assumes adj: "0 < adjustedEquityAllocation mc up" and bond: "0 < bondAllocation mc up"
  shows "\<forall>(name, w) \<in> set (map (\<lambda>(name, a). (name, a / rawTotal mc up)) (rawWeights mc up)).
           0 < w \<and> w < 1"
proof -
  let ?a = "adjustedEquityAllocation mc up" and ?b = "bondAllocation mc up"
  have t: "rawTotal mc up = ?a + ?b" by (rule rawTotal_eq)
  have q: "0 < x / (?a + ?b) \<and> x / (?a + ?b) < 1" if "0 < x" "x < ?a + ?b" for x
    using that by (rule bounds_weight)
  have b: "0 < ?b / (?a + ?b) \<and> ?b / (?a + ?b) < 1"
    using adj bond by (intro q) simp_all
  have m: "0 < ?a * c / (?a + ?b) \<and> ?a * c / (?a + ?b) < 1" if "0 < c" "c < 1" for c
  proof (rule q)
    show "0 < ?a * c" using adj that by simp
    have "?a * c < ?a * 1" using adj that by (intro mult_strict_left_mono) simp_all
    then show "?a * c < ?a + ?b" using bond by simp
  qed
  have m2: "0 < ?a * (2/5) / (?a + ?b) \<and> ?a * (2/5) / (?a + ?b) < 1" by (rule m) simp_all
  have m3: "0 < ?a * (3/10) / (?a + ?b) \<and> ?a * (3/10) / (?a + ?b) < 1" by (rule m) simp_all
  have m5: "0 < ?a * (1/2) / (?a + ?b) \<and> ?a * (1/2) / (?a + ?b) < 1" by (rule m) simp_all
  have m6: "0 < ?a * (3/5) / (?a + ?b) \<and> ?a * (3/5) / (?a + ?b) < 1" by (rule m) simp_all
  have m7: "0 < ?a * (7/10) / (?a + ?b) \<and> ?a * (7/10) / (?a + ?b) < 1" by (rule m) simp_all
  have m1: "0 < ?a * (1/5) / (?a + ?b) \<and> ?a * (1/5) / (?a + ?b) < 1" by (rule m) simp_all
  show ?thesis
    unfolding t
    using b m1 m2 m3 m5 m6 m7
    by (cases "globalOutlook mc"; cases "incomeNeeds up")
       (simp_all add: rawWeights_def selection_def Let_def)
qed

subsection \<open>The legs of the outcome\<close>

lemma getMarketConditions_outage:
  "getMarketConditions outage =
     \<lparr>globalOutlook = Positive, spReturn = 0, volatilityIndex = None,
      marketAnalysis = \<lparr>mc_description = ''Market data unavailable'', mc_factors = []\<rparr>\<rparr>"
  by (simp add: getMarketConditions_def outage_def)

lemma bondWeightOf_eq:
  "bondWeightOf (generateWith (getETFData yf) mc up amount)
     = Some (bondAllocation mc up / rawTotal mc up)"
proof -
  from generateWith_weights [of yf mc up amount] obtain r where
    r: "generateWith (getETFData yf) mc up amount = Inr r"
       "weights r = map (\<lambda>(name, a). (name, a / rawTotal mc up)) (rawWeights mc up)"
    by blast
  have "map_of (map (\<lambda>(name, a). (name, a / rawTotal mc up)) (rawWeights mc up))
          ''Satrix SA Bond ETF'' = Some (bondAllocation mc up / rawTotal mc up)"
    by (cases "globalOutlook mc"; cases "incomeNeeds up")
       (simp_all add: rawWeights_def selection_def Let_def)
  then show ?thesis by (simp add: bondWeightOf_def bondWeight_def r)
qed

lemma equityWeightOf_eq:
  "equityWeightOf (generateWith (getETFData yf) mc up amount)
     = Some (adjustedEquityAllocation mc up / rawTotal mc up)"
proof -
  from generateWith_weights [of yf mc up amount] obtain r where
    r: "generateWith (getETFData yf) mc up amount = Inr r"
       "weights r = map (\<lambda>(name, a). (name, a / rawTotal mc up)) (rawWeights mc up)"
    by blast
  have "sum_list (map snd (filter (\<lambda>(etf, w). etf \<noteq> ''Satrix SA Bond ETF'')
          (map (\<lambda>(name, a). (name, a / rawTotal mc up)) (rawWeights mc up))))
        = adjustedEquityAllocation mc up / rawTotal mc up"
    by (cases "globalOutlook mc"; cases "incomeNeeds up")
       (simp_all add: rawWeights_def selection_def Let_def add_divide_distrib [symmetric])
  then show ?thesis by (simp add: equityWeightOf_def equityWeight_def r)
qed

lemma rationaleOf_eq:
  "rationaleOf (generateWith (getETFData yf) mc up amount) = rationale mc up"
  using generateWith_weights [of yf mc up amount] by (auto simp: rationaleOf_def)

lemma projectionOf_eq:
  "projectionOf (generateWith (getETFData yf) mc up amount) = monthlyProjection up"
  using generateWith_weights [of yf mc up amount] by (auto simp: projectionOf_def)

lemma weightsOf_eq:
  "weightsOf (generateWith (getETFData yf) mc up amount)
     = Some (map (\<lambda>(name, a). (name, a / rawTotal mc up)) (rawWeights mc up))"
  using generateWith_weights [of yf mc up amount] by (auto simp: weightsOf_def)

lemma fv_eval:
  "futureValue 1000 5 = 1000 * (((1207 / 1200) ^ 60 - 1) / (7 / 1200)) * (1207 / 1200)"
proof -
  have "((1207 / 1200)::real) powr 60 = (1207 / 1200) ^ 60"
    by (rule powr_numeral) simp
  then show ?thesis by (simp add: futureValue_def)
qed

lemma fv_bounds: "72010 < futureValue 1000 5 \<and> futureValue 1000 5 < 72011"
  unfolding fv_eval by (simp add: power_divide)

lemma rawWeights_cong:
  "rawWeights mc (up\<lparr>investmentHorizon := h, investmentType := t, monthlyAmount := m\<rparr>)
     = rawWeights mc up"
proof -
  let ?up = "up\<lparr>investmentHorizon := h, investmentType := t, monthlyAmount := m\<rparr>"
  have "allocations mc ?up = allocations mc up"
    by (simp add: allocations_def equityAllocation_def riskAdjustment_def)
  then show ?thesis
    by (simp add: rawWeights_def selection_def adjustedEquityAllocation_def
        bondAllocation_def Let_def)
qed

lemma dampened_share:
  fixes x b :: real
  assumes "0 < x" and "0 < b"
  shows "x * 0.9 / (x * 0.9 + b) < x / (x + b)"
proof -
  have xb: "0 < x * b" using assms by simp
  have "(x * 0.9) * (x + b) < x * (x * 0.9 + b)"
    using xb by (simp add: algebra_simps)
  moreover have "0 < x * 0.9 + b" "0 < x + b" using assms by simp_all
  ultimately show ?thesis by (simp add: divide_simps)
qed

lemma dampening_without_income:
  assumes "\<not> incomeNeeds up" and "1 \<le> riskScore up" and "riskScore up \<le> 10"
    and "volatilityIndex mc30 = Some 30" and "volatilityIndex mc10 = Some 10"
  shows "adjustedEquityAllocation mc30 up < adjustedEquityAllocation mc10 up
         \<and> adjustedEquityAllocation mc30 up / rawTotal mc30 up
             < adjustedEquityAllocation mc10 up / rawTotal mc10 up"
proof -
  let ?x = "equityAllocation up + riskAdjustment up * 0.2"
  let ?b = "1 - equityAllocation up"
  have x: "0 < ?x" using risk_adjusted_lower [OF assms(2,3)] by simp
  have b: "0 < ?b" using equityAllocation_bounds [of up] by simp
  have a30: "adjustedEquityAllocation mc30 up = ?x * 0.9"
    using assms(1,4) by (simp add: adjustedEquityAllocation_def allocations_cases highVolatility_def)
  have a10: "adjustedEquityAllocation mc10 up = ?x"
    using assms(1,5) by (simp add: adjustedEquityAllocation_def allocations_cases highVolatility_def)
  have b30: "bondAllocation mc30 up = ?b" and b10: "bondAllocation mc10 up = ?b"
    using assms(1) by (simp_all add: bondAllocation_def allocations_cases)
  have lt: "?x * 0.9 < ?x" using x by simp
  have "?x * 0.9 / (?x * 0.9 + ?b) < ?x / (?x + ?b)"
    using x b by (rule dampened_share)
  with lt show ?thesis by (simp add: rawTotal_eq a30 a10 b30 b10)
qed

section \<open>The dialogue: steps and invariant\<close>

lemma pendingField_Some:
  "pendingField p = Some f \<longleftrightarrow>
    (case f of
       InvestmentGoal \<Rightarrow> \<not> truthyS (investmentGoal p)
     | TimeHorizon \<Rightarrow> truthyS (investmentGoal p) \<and> \<not> truthyN (timeHorizon p)
     | RiskTolerance \<Rightarrow>
         truthyS (investmentGoal p) \<and> truthyN (timeHorizon p) \<and> \<not> truthyS (riskTolerance p)
     | IncomeNeeds \<Rightarrow>
         truthyS (investmentGoal p) \<and> truthyN (timeHorizon p) \<and> truthyS (riskTolerance p)
         \<and> \<not> truthyS (p_incomeNeeds p)
     | InvestmentAmount \<Rightarrow>
         truthyS (investmentGoal p) \<and> truthyN (timeHorizon p) \<and> truthyS (riskTolerance p)
         \<and> truthyS (p_incomeNeeds p) \<and> investmentAmount p = None
     | InvestmentType \<Rightarrow>
         truthyS (investmentGoal p) \<and> truthyN (timeHorizon p) \<and> truthyS (riskTolerance p)
         \<and> truthyS (p_incomeNeeds p) \<and> investmentAmount p \<noteq> None
         \<and> p_investmentType p = None
     | MonthlyAmount \<Rightarrow>
         truthyS (investmentGoal p) \<and> truthyN (timeHorizon p) \<and> truthyS (riskTolerance p)
         \<and> truthyS (p_incomeNeeds p) \<and> investmentAmount p \<noteq> None
         \<and> p_investmentType p = Some Monthly \<and> p_monthlyAmount p = None)"
  by (cases f) (auto simp: pendingField_def)

lemma pending_step_invalid:
  assumes "pendingField p = Some f" and "\<not> accepts f input"
  shows "generateBotResponse advise p input = (p, reprompt f)"
proof (cases f)
  case InvestmentGoal
  with assms show ?thesis
    by (simp add: pendingField_Some generateBotResponse_def)
next
  case TimeHorizon
  with assms show ?thesis
    by (simp add: pendingField_Some generateBotResponse_def)
next
  case RiskTolerance
  with assms show ?thesis
    by (simp add: pendingField_Some generateBotResponse_def)
next
  case IncomeNeeds
  with assms show ?thesis
    by (simp add: pendingField_Some generateBotResponse_def Let_def)
next
  case InvestmentAmount
  with assms show ?thesis
    by (simp add: pendingField_Some generateBotResponse_def)
next
  case InvestmentType
  with assms show ?thesis
    by (auto simp: pendingField_Some generateBotResponse_def Let_def)
next
  case MonthlyAmount
  with assms show ?thesis
    by (auto simp: pendingField_Some generateBotResponse_def)
qed


lemma validateAmount_nonempty: "validateAmount input = Some a \<Longrightarrow> input \<noteq> []"
  by (auto simp: validateAmount_def parseFloat_def)

lemma validateTimeHorizon_nonzero: "validateTimeHorizon input = Some y \<Longrightarrow> y \<noteq> 0"
  by (auto simp: validateTimeHorizon_def split: option.splits if_splits)

lemma validateRiskTolerance_nonempty: "validateRiskTolerance input = Some r \<Longrightarrow> r \<noteq> []"
  by (auto simp: validateRiskTolerance_def Let_def split: if_splits)

lemma inOrder_empty: "inOrder emptyProfile"
  by (simp add: inOrder_def emptyProfile_def)

lemma step_cases:
  "fst (generateBotResponse advise p input) = p
   \<or> (\<not> truthyS (investmentGoal p) \<and> input \<noteq> []
        \<and> fst (generateBotResponse advise p input) = p\<lparr>investmentGoal := Some input\<rparr>)
   \<or> (truthyS (investmentGoal p) \<and> \<not> truthyN (timeHorizon p)
        \<and> (\<exists>y. y \<noteq> 0 \<and> fst (generateBotResponse advise p input) = p\<lparr>timeHorizon := Some y\<rparr>))
   \<or> (truthyS (investmentGoal p) \<and> truthyN (timeHorizon p) \<and> \<not> truthyS (riskTolerance p)
        \<and> (\<exists>r. r \<noteq> [] \<and> fst (generateBotResponse advise p input) = p\<lparr>riskTolerance := Some r\<rparr>))
   \<or> (truthyS (investmentGoal p) \<and> truthyN (timeHorizon p) \<and> truthyS (riskTolerance p)
        \<and> \<not> truthyS (p_incomeNeeds p)
        \<and> (\<exists>a. a \<noteq> [] \<and> fst (generateBotResponse advise p input) = p\<lparr>p_incomeNeeds := Some a\<rparr>))
   \<or> (truthyS (investmentGoal p) \<and> truthyN (timeHorizon p) \<and> truthyS (riskTolerance p)
        \<and> truthyS (p_incomeNeeds p) \<and> investmentAmount p = None
        \<and> (\<exists>a. fst (generateBotResponse advise p input) = p\<lparr>investmentAmount := Some a\<rparr>))
   \<or> (truthyS (investmentGoal p) \<and> truthyN (timeHorizon p) \<and> truthyS (riskTolerance p)
        \<and> truthyS (p_incomeNeeds p) \<and> investmentAmount p \<noteq> None \<and> p_investmentType p = None
        \<and> (\<exists>t. fst (generateBotResponse advise p input) = p\<lparr>p_investmentType := Some t\<rparr>))
   \<or> (truthyS (investmentGoal p) \<and> truthyN (timeHorizon p) \<and> truthyS (riskTolerance p)
        \<and> truthyS (p_incomeNeeds p) \<and> investmentAmount p \<noteq> None
        \<and> p_investmentType p = Some Monthly \<and> p_monthlyAmount p = None
        \<and> (\<exists>m. fst (generateBotResponse advise p input) = p\<lparr>p_monthlyAmount := Some m\<rparr>))"
proof (cases "pendingField p")
  case None
  then have "generateBotResponse advise p input =
    (p, ''I've already provided a portfolio recommendation. If you'd like a new one, please refresh the page to start over.'')"
    by (auto simp: pendingField_def generateBotResponse_def split: if_splits)
  then show ?thesis by simp
next
  case (Some f)
  show ?thesis
  proof (cases "accepts f input")
    case False
    with Some pending_step_invalid [of p f input advise] show ?thesis by simp
  next
    case True
    show ?thesis
    proof (cases f)
      case InvestmentGoal
      with Some True obtain a where a: "validateAmount input = Some a" by auto
      from Some InvestmentGoal have c: "\<not> truthyS (investmentGoal p)"
        by (simp add: pendingField_Some)
      have "fst (generateBotResponse advise p input) = p\<lparr>investmentGoal := Some input\<rparr>"
        using c a by (simp add: generateBotResponse_def)
      with c validateAmount_nonempty [OF a] show ?thesis by blast
    next
      case TimeHorizon
      with Some True obtain y where y: "validateTimeHorizon input = Some y" by auto
      from Some TimeHorizon have c: "truthyS (investmentGoal p)" "\<not> truthyN (timeHorizon p)"
        by (simp_all add: pendingField_Some)
      have "fst (generateBotResponse advise p input) = p\<lparr>timeHorizon := Some y\<rparr>"
        using c y by (simp add: generateBotResponse_def)
      with c validateTimeHorizon_nonzero [OF y] show ?thesis by blast
    next
      case RiskTolerance
      with Some True obtain r where r: "validateRiskTolerance input = Some r" by auto
      from Some RiskTolerance have c: "truthyS (investmentGoal p)" "truthyN (timeHorizon p)"
        "\<not> truthyS (riskTolerance p)"
        by (simp_all add: pendingField_Some)
      have "fst (generateBotResponse advise p input) = p\<lparr>riskTolerance := Some r\<rparr>"
        using c r by (simp add: generateBotResponse_def)
      with c validateRiskTolerance_nonempty [OF r] show ?thesis by blast
    next
      case IncomeNeeds
      with True have t: "toLowerCase input = ''yes'' \<or> toLowerCase input = ''no''" by simp
      then have ne: "toLowerCase input \<noteq> []" by auto
      from Some IncomeNeeds have c: "truthyS (investmentGoal p)" "truthyN (timeHorizon p)"
        "truthyS (riskTolerance p)" "\<not> truthyS (p_incomeNeeds p)"
        by (simp_all add: pendingField_Some)
      have "fst (generateBotResponse advise p input)
              = p\<lparr>p_incomeNeeds := Some (toLowerCase input)\<rparr>"
        using c t by (auto simp: generateBotResponse_def Let_def)
      with c ne show ?thesis by blast
    next
      case InvestmentAmount
      with Some True obtain a where a: "validateAmount input = Some a" by auto
      from Some InvestmentAmount have c: "truthyS (investmentGoal p)" "truthyN (timeHorizon p)"
        "truthyS (riskTolerance p)" "truthyS (p_incomeNeeds p)" "investmentAmount p = None"
        by (simp_all add: pendingField_Some)
      have "fst (generateBotResponse advise p input) = p\<lparr>investmentAmount := Some a\<rparr>"
        using c a by (simp add: generateBotResponse_def)
      with c show ?thesis by blast
    next
      case InvestmentType
      with True have t: "toLowerCase input = ''once-off'' \<or> toLowerCase input = ''monthly''"
        by simp
      from Some InvestmentType have c: "truthyS (investmentGoal p)" "truthyN (timeHorizon p)"
        "truthyS (riskTolerance p)" "truthyS (p_incomeNeeds p)" "investmentAmount p \<noteq> None"
        "p_investmentType p = None"
        by (simp_all add: pendingField_Some)
      have "\<exists>k. fst (generateBotResponse advise p input) = p\<lparr>p_investmentType := Some k\<rparr>"
        using c t by (auto simp: generateBotResponse_def Let_def)
      with c show ?thesis by blast
    next
      case MonthlyAmount
      with Some True obtain a where a: "validateAmount input = Some a" by auto
      from Some MonthlyAmount have c: "truthyS (investmentGoal p)" "truthyN (timeHorizon p)"
        "truthyS (riskTolerance p)" "truthyS (p_incomeNeeds p)" "investmentAmount p \<noteq> None"
        "p_investmentType p = Some Monthly" "p_monthlyAmount p = None"
        by (simp_all add: pendingField_Some)
      have "fst (generateBotResponse advise p input) = p\<lparr>p_monthlyAmount := Some a\<rparr>"
        using c a by (auto simp: generateBotResponse_def Let_def)
      with c show ?thesis by blast
    qed
  qed
qed

lemma truthyS_set: "truthyS v \<Longrightarrow> v \<noteq> None"
  by (cases v) (simp_all add: truthyS_def)

lemma truthyN_set: "truthyN v \<Longrightarrow> v \<noteq> None"
  by (cases v) (simp_all add: truthyN_def)

lemma inOrder_step:
  assumes "inOrder p"
  shows "inOrder (fst (generateBotResponse advise p input))"
  using step_cases [of advise p input] assms
  by (elim disjE conjE exE)
     (auto simp: inOrder_def truthyS_def truthyN_def split: option.splits)

lemma reachable_inOrder: "reachable p \<Longrightarrow> inOrder p"
  by (induction rule: reachable.induct) (simp_all add: inOrder_empty inOrder_step)

lemma reachable_run: "reachable p \<Longrightarrow> reachable (run advise p inputs)"
proof (induction inputs arbitrary: p)
  case Nil
  then show ?case by (simp add: run_def)
next
  case (Cons i inputs)
  from Cons.prems have "reachable (fst (generateBotResponse advise p i))"
    by (rule reachable.step)
  from Cons.IH [OF this] show ?case by (simp add: run_def)
qed


lemma inOrder_prefix:
  assumes "inOrder p" and "rank f < rank g" and "isSet g p"
  shows "isSet f p"
proof -
  from assms(1) have c:
    "timeHorizon p \<noteq> None \<Longrightarrow> investmentGoal p \<noteq> None"
    "riskTolerance p \<noteq> None \<Longrightarrow> timeHorizon p \<noteq> None"
    "p_incomeNeeds p \<noteq> None \<Longrightarrow> riskTolerance p \<noteq> None"
    "investmentAmount p \<noteq> None \<Longrightarrow> p_incomeNeeds p \<noteq> None"
    "p_investmentType p \<noteq> None \<Longrightarrow> investmentAmount p \<noteq> None"
    "p_monthlyAmount p \<noteq> None \<Longrightarrow> p_investmentType p \<noteq> None"
    by (auto simp: inOrder_def)
  from assms(2,3) show ?thesis
    by (cases f; cases g) (use c in \<open>simp_all\<close>)
qed

lemma inOrder_final:
  assumes "inOrder p"
  shows "isFinal p \<longleftrightarrow> (\<forall>f \<in> set (requiredFields p). isSet f p)"
proof -
  from assms have t:
    "truthyS (investmentGoal p) \<longleftrightarrow> investmentGoal p \<noteq> None"
    "truthyN (timeHorizon p) \<longleftrightarrow> timeHorizon p \<noteq> None"
    "truthyS (riskTolerance p) \<longleftrightarrow> riskTolerance p \<noteq> None"
    "truthyS (p_incomeNeeds p) \<longleftrightarrow> p_incomeNeeds p \<noteq> None"
    using truthyS_set truthyN_set by (auto simp: inOrder_def)
  show ?thesis
    by (auto simp: isFinal_def pendingField_def requiredFields_def t)
qed

lemma scenario_steps:
  "validateAmount ''10000'' = Some 10000"
  "validateTimeHorizon ''5 years'' = Some 5"
  "validateRiskTolerance ''medium'' = Some ''medium''"
  "toLowerCase ''no'' = ''no''"
  "toLowerCase ''once-off'' = ''once-off''"
  by (simp_all add: validateAmount_def parseFloat_def validateTimeHorizon_def parseInt_def
      validateRiskTolerance_def isDigit_def digitsValue_def digitValue_def
      toLowerCase_def lowerChar_def)

lemma run_scenario:
  "run advise emptyProfile scenarioInputs =
     \<lparr>investmentGoal = Some ''10000'', timeHorizon = Some 5, riskTolerance = Some ''medium'',
      p_incomeNeeds = Some ''no'', investmentAmount = Some 10000,
      p_investmentType = Some OnceOff, p_monthlyAmount = None\<rparr>"
  by (simp add: run_def scenarioInputs_def generateBotResponse_def emptyProfile_def
      truthyS_def truthyN_def scenario_steps Let_def)

lemma run_scenario_before:
  "pendingField (run advise emptyProfile (take 5 scenarioInputs)) = Some InvestmentType"
  by (simp add: run_def scenarioInputs_def generateBotResponse_def emptyProfile_def
      truthyS_def truthyN_def scenario_steps Let_def pendingField_def)

text \<open>What the dialogue sends to the engine.\<close>

lemma requestProfile_riskScore:
  "riskScore (requestProfile p) \<in> {3, 5, 8} \<and> age (requestProfile p) = 30"
  by (simp add: requestProfile_def)

lemma requestProfile_no_projection: "monthlyProjection (requestProfile p) = None"
  by (simp add: monthlyProjection_def requestProfile_def)

text \<open>At the dialogue's default age the income override does raise the bond weight.\<close>

lemma income_raises_bond_at_30:
  assumes "age up = 30" and "1 \<le> riskScore up" and "riskScore up \<le> 10"
  shows "bondWeightOf (generateWith (getETFData yf) mc (up\<lparr>incomeNeeds := True\<rparr>) amount)
           = Some 0.3
         \<and> (\<exists>b0. bondWeightOf (generateWith (getETFData yf) mc (up\<lparr>incomeNeeds := False\<rparr>) amount)
                  = Some b0 \<and> b0 \<le> 0.3)"
proof -
  let ?u1 = "up\<lparr>incomeNeeds := True\<rparr>" and ?u0 = "up\<lparr>incomeNeeds := False\<rparr>"
  have e: "equityAllocation ?u1 = 0.8" "equityAllocation ?u0 = 0.8"
    using assms(1) by (simp_all add: equityAllocation_def)
  have b1: "bondAllocation mc ?u1 = 0.3" "adjustedEquityAllocation mc ?u1 = 0.7"
    by (simp_all add: bondAllocation_def adjustedEquityAllocation_def allocations_cases e)
  have b0: "bondAllocation mc ?u0 = 0.2"
    by (simp add: bondAllocation_def allocations_cases e)
  have r: "1 \<le> riskScore ?u0" "riskScore ?u0 \<le> 10" using assms(2,3) by simp_all
  have a0: "0.648 \<le> adjustedEquityAllocation mc ?u0"
  proof -
    have ra: "- 0.4 \<le> riskAdjustment ?u0"
      using assms(2) by (simp add: riskAdjustment_def)
    have "0.72 \<le> equityAllocation ?u0 + riskAdjustment ?u0 * 0.2"
      using ra by (simp add: e)
    then show ?thesis
      by (cases "highVolatility mc")
         (simp_all add: adjustedEquityAllocation_def allocations_cases)
  qed
  have le: "0.2 / (adjustedEquityAllocation mc ?u0 + 0.2) \<le> (0.3::real)"
    using a0 by (simp add: divide_simps)
  have w1: "bondWeightOf (generateWith (getETFData yf) mc ?u1 amount) = Some 0.3"
    by (simp add: bondWeightOf_eq rawTotal_eq b1)
  have w0: "bondWeightOf (generateWith (getETFData yf) mc ?u0 amount)
              = Some (0.2 / (adjustedEquityAllocation mc ?u0 + 0.2))"
    by (simp only: bondWeightOf_eq rawTotal_eq b0)
  from w1 w0 le show ?thesis by blast
qed

section \<open>Properties of the allocation engine\<close>

text \<open>
  C1. For every profile with a risk score between 1 and 10 and every market context, the
  engine returns a plan; each instrument's final weight is its raw weight divided by the
  sum of all raw weights, and the final weights sum to 1 (hence within 1e-9 of 1).
\<close>

theorem weights_sum_to_one:
  assumes "1 \<le> riskScore up" and "riskScore up \<le> 10"
  shows "\<exists>r. generateWith (getETFData yf) mc up amount = Inr r
           \<and> weights r = map (\<lambda>(name, a). (name, a / rawTotal mc up)) (rawWeights mc up)
           \<and> sum_list (map snd (weights r)) = 1
           \<and> \<bar>sum_list (map snd (weights r)) - 1\<bar> \<le> 1 / 10 ^ 9"
proof -
  from generateWith_weights [of yf mc up amount] obtain r where
    r: "generateWith (getETFData yf) mc up amount = Inr r"
       "weights r = map (\<lambda>(name, a). (name, a / rawTotal mc up)) (rawWeights mc up)"
    by blast
  have pos: "0 < rawTotal mc up" by (rule rawTotal_pos [OF assms])
  have "sum_list (map snd (weights r)) = rawTotal mc up / rawTotal mc up"
    unfolding r(2) sum_normalized by (simp add: rawTotal_def)
  with pos have one: "sum_list (map snd (weights r)) = 1" by simp
  from r one show ?thesis by simp
qed

theorem weights_sum_to_one_witness:
  "1 \<le> riskScore sampleProfile \<and> riskScore sampleProfile \<le> 10
   \<and> (\<exists>r. generateWith (getETFData outage) calmMarket sampleProfile 10000 = Inr r
          \<and> sum_list (map snd (weights r)) = 1)"
proof -
  have h: "1 \<le> riskScore sampleProfile" "riskScore sampleProfile \<le> 10"
    by (simp_all add: sampleProfile_def)
  from weights_sum_to_one [OF h, of outage calmMarket 10000] h show ?thesis by blast
qed

text \<open>
  C4. The equity instruments selected are exactly the specification's table keyed by
  outlook and income need, each at its fraction of the adjusted equity allocation,
  followed by the bond instrument at the bond allocation; the fractions of every cell sum
  to 1; and the returned weights are these raw weights over their sum.
\<close>

theorem basket_table:
  "rawWeights mc up =
     map (\<lambda>(name, w). (name, adjustedEquityAllocation mc up * w))
       (specBasket (globalOutlook mc) (incomeNeeds up))
     @ [(''Satrix SA Bond ETF'', bondAllocation mc up)]
   \<and> sum_list (map snd (specBasket (globalOutlook mc) (incomeNeeds up))) = 1
   \<and> (\<exists>r. generateWith (getETFData yf) mc up amount = Inr r
          \<and> weights r = map (\<lambda>(name, a). (name, a / rawTotal mc up)) (rawWeights mc up))"
proof -
  have a: "rawWeights mc up =
     map (\<lambda>(name, w). (name, adjustedEquityAllocation mc up * w))
       (specBasket (globalOutlook mc) (incomeNeeds up))
     @ [(''Satrix SA Bond ETF'', bondAllocation mc up)]"
    by (cases "globalOutlook mc"; cases "incomeNeeds up")
       (simp_all add: rawWeights_def selection_def Let_def)
  have b: "sum_list (map snd (specBasket (globalOutlook mc) (incomeNeeds up))) = 1"
    by (cases "globalOutlook mc"; cases "incomeNeeds up") simp_all
  from generateWith_weights [of yf mc up amount] a b show ?thesis by blast
qed

text \<open>
  C5. For age 30, risk score 5, no income need, a positive outlook and a volatility index
  absent or not above 25 (whatever the horizon and the amount): the base equity
  allocation is 0.8, the risk adjustment is 0, the adjusted equity allocation stays 0.8,
  and the returned weights are developed-market 0.48, emerging-market 0.32, bond 0.20.
\<close>

theorem scenario_age_30:
  assumes "age up = 30" and "riskScore up = 5" and "\<not> incomeNeeds up"
    and "globalOutlook mc = Positive"
    and "\<forall>v. volatilityIndex mc = Some v \<longrightarrow> v \<le> 25"
  shows "equityAllocation up = 0.8 \<and> riskAdjustment up = 0
         \<and> adjustedEquityAllocation mc up = 0.8
         \<and> (\<exists>r. generateWith (getETFData yf) mc up amount = Inr r
               \<and> weights r = [(''Satrix MSCI World ETF'', 0.48),
                               (''Satrix MSCI Emerging Markets ETF'', 0.32),
                               (''Satrix SA Bond ETF'', 0.2)])"
proof -
  have e: "equityAllocation up = 0.8" using assms(1) by (simp add: equityAllocation_def)
  have ra: "riskAdjustment up = 0" using assms(2) by (simp add: riskAdjustment_def)
  have hv: "\<not> highVolatility mc"
    using assms(5) by (auto simp: highVolatility_def split: option.splits)
  have al: "allocations mc up = (0.2, 0.8)"
    using assms(3) hv by (simp add: allocations_cases e ra)
  have adj: "adjustedEquityAllocation mc up = 0.8" by (simp add: adjustedEquityAllocation_def al)
  have bond: "bondAllocation mc up = 0.2" by (simp add: bondAllocation_def al)
  have raw: "rawWeights mc up = [(''Satrix MSCI World ETF'', 0.48),
                               (''Satrix MSCI Emerging Markets ETF'', 0.32),
                               (''Satrix SA Bond ETF'', 0.2)]"
    using assms(3,4) by (simp add: rawWeights_def selection_def adj bond)
  have tot: "rawTotal mc up = 1" by (simp add: rawTotal_def raw)
  from generateWith_weights [of yf mc up amount] obtain r where
    r: "generateWith (getETFData yf) mc up amount = Inr r"
       "weights r = map (\<lambda>(name, a). (name, a / rawTotal mc up)) (rawWeights mc up)"
    by blast
  have "weights r = [(''Satrix MSCI World ETF'', 0.48),
                               (''Satrix MSCI Emerging Markets ETF'', 0.32),
                               (''Satrix SA Bond ETF'', 0.2)]"
    unfolding r(2) tot raw by simp
  with r(1) e ra adj show ?thesis by blast
qed

theorem scenario_age_30_witness:
  "age sampleProfile = 30 \<and> riskScore sampleProfile = 5 \<and> \<not> incomeNeeds sampleProfile
   \<and> globalOutlook calmMarket = Positive
   \<and> volatilityIndex calmMarket = Some 10
   \<and> (\<exists>r. generateWith (getETFData outage) calmMarket sampleProfile 10000 = Inr r
         \<and> weights r = [(''Satrix MSCI World ETF'', 0.48),
                         (''Satrix MSCI Emerging Markets ETF'', 0.32),
                         (''Satrix SA Bond ETF'', 0.2)])"
proof -
  have h: "age sampleProfile = 30" "riskScore sampleProfile = 5" "\<not> incomeNeeds sampleProfile"
    "globalOutlook calmMarket = Positive"
    "\<forall>v. volatilityIndex calmMarket = Some v \<longrightarrow> v \<le> 25"
    by (simp_all add: sampleProfile_def calmMarket_def)
  have v: "volatilityIndex calmMarket = Some 10" by (simp add: calmMarket_def)
  from scenario_age_30 [OF h, of outage 10000] h v show ?thesis by blast
qed

text \<open>
  C10, as amended. For every age and every risk score between 1 and 10: the risk-adjusted
  equity is at least 0.02 before volatility dampening and the adjusted equity allocation
  used for the instruments is at least 0.018; the bond leg is at least 0.10; the sum of
  the raw weights is strictly positive; the engine returns, and every final weight lies
  strictly between 0 and 1.
\<close>

theorem normalisation_well_defined:
  assumes "1 \<le> riskScore up" and "riskScore up \<le> 10"
  shows "0.02 \<le> equityAllocation up + riskAdjustment up * 0.2
         \<and> 0.018 \<le> adjustedEquityAllocation mc up
         \<and> 0.1 \<le> bondAllocation mc up
         \<and> 0 < rawTotal mc up
         \<and> (\<exists>r. generateWith (getETFData yf) mc up amount = Inr r
               \<and> weights r = map (\<lambda>(name, a). (name, a / rawTotal mc up)) (rawWeights mc up)
               \<and> (\<forall>(name, w) \<in> set (weights r). 0 < w \<and> w < 1))"
proof -
  have base: "0.02 \<le> equityAllocation up + riskAdjustment up * 0.2"
    by (rule risk_adjusted_lower [OF assms])
  have adj: "0.018 \<le> adjustedEquityAllocation mc up" by (rule adjusted_lower [OF assms])
  have bond: "0.1 \<le> bondAllocation mc up" by (rule bond_lower)
  have pos: "0 < rawTotal mc up" by (rule rawTotal_pos [OF assms])
  from generateWith_weights [of yf mc up amount] obtain r where
    r: "generateWith (getETFData yf) mc up amount = Inr r"
       "weights r = map (\<lambda>(name, a). (name, a / rawTotal mc up)) (rawWeights mc up)"
    by blast
  have "\<forall>(name, w) \<in> set (weights r). 0 < w \<and> w < 1"
    unfolding r(2) using adj bond by (intro weights_in_unit) simp_all
  with base adj bond pos r show ?thesis by blast
qed

theorem normalisation_well_defined_witness:
  "1 \<le> riskScore (profileOf 100 1 False) \<and> riskScore (profileOf 100 1 False) \<le> 10
   \<and> 0.018 \<le> adjustedEquityAllocation (market Positive (Some 30)) (profileOf 100 1 False)
   \<and> 0 < rawTotal (market Positive (Some 30)) (profileOf 100 1 False)
   \<and> (\<exists>r. generateWith (getETFData outage) (market Positive (Some 30)) (profileOf 100 1 False) 10000
             = Inr r
         \<and> (\<forall>(name, w) \<in> set (weights r). 0 < w \<and> w < 1))"
proof -
  have h: "1 \<le> riskScore (profileOf 100 1 False)" "riskScore (profileOf 100 1 False) \<le> 10"
    by (simp_all add: profileOf_def)
  from normalisation_well_defined [OF h, of "market Positive (Some 30)" outage 10000] h
  show ?thesis by blast
qed

text \<open>
  C10 as stated fails on the bound 0.02: at age 100, risk score 1 and volatility index
  30 the adjusted equity allocation is 0.018.
\<close>

theorem adjusted_equity_below_2_percent:
  "1 \<le> riskScore (profileOf 100 1 False) \<and> riskScore (profileOf 100 1 False) \<le> 10
   \<and> adjustedEquityAllocation (market Positive (Some 30)) (profileOf 100 1 False) = 0.018
   \<and> \<not> 0.02 \<le> adjustedEquityAllocation (market Positive (Some 30)) (profileOf 100 1 False)"
  by (simp add: adjustedEquityAllocation_def allocations_cases equityAllocation_def
      riskAdjustment_def highVolatility_def market_def profileOf_def)

text \<open>
  C2, evaluated where it fails. At age 60 and risk score 5, with the provider down (so a
  positive outlook and no volatility index), the income override lowers the bond
  allocation from 0.5 to 0.4: the final bond weight with income need is 0.4, without it
  0.5.
\<close>

theorem income_lowers_bond_at_60:
  "bondWeightOf (generateAdvancedPortfolio outage (profileOf 60 5 True) 10000) = Some 0.4
   \<and> bondWeightOf (generateAdvancedPortfolio outage (profileOf 60 5 False) 10000) = Some 0.5
   \<and> bondAllocation (getMarketConditions outage) (profileOf 60 5 True)
       < bondAllocation (getMarketConditions outage) (profileOf 60 5 False)"
  by (simp add: generateAdvancedPortfolio_def bondWeightOf_eq rawTotal_eq
      getMarketConditions_outage bondAllocation_def adjustedEquityAllocation_def
      allocations_cases equityAllocation_def riskAdjustment_def highVolatility_def
      profileOf_def)

text \<open>
  C3, evaluated where it fails. For a profile with income need (age 30, risk score 5)
  the income override replaces the dampened equity by 1 minus the bond allocation: at
  volatility index 30 and at 10 the equity allocation and the final equity weight are the
  same (0.7), although the rationale reports the volatility adjustment at 30.
\<close>

theorem income_discards_dampening:
  "equityWeightOf (generateWith (getETFData outage) (market Positive (Some 30))
      (profileOf 30 5 True) 10000) = Some 0.7
   \<and> equityWeightOf (generateWith (getETFData outage) (market Positive (Some 10))
      (profileOf 30 5 True) 10000) = Some 0.7
   \<and> adjustedEquityAllocation (market Positive (Some 30)) (profileOf 30 5 True)
       = adjustedEquityAllocation (market Positive (Some 10)) (profileOf 30 5 True)
   \<and> VolatilityAdjustment 30
       \<in> set (rationaleOf (generateWith (getETFData outage) (market Positive (Some 30))
                (profileOf 30 5 True) 10000))"
  by (simp add: equityWeightOf_eq rationaleOf_eq rawTotal_eq rationale_def
      bondAllocation_def adjustedEquityAllocation_def
      allocations_cases equityAllocation_def riskAdjustment_def highVolatility_def
      profileOf_def market_def)

text \<open>
  C6, as amended. A projection is produced only for a monthly investment, and for a
  profile that carries a non-zero monthly amount and a non-zero horizon it is produced
  exactly when the investment type is monthly; its value is
  monthlyAmount * ((1 + r)^n - 1) / r * (1 + r) with r = 0.07/12 and n = horizon * 12; it
  is carried by the narrative, and the weights do not depend on the horizon, the
  investment type or the monthly amount; for 1000 a month over 5 years the value lies
  between 72010 and 72011.
\<close>

theorem projection_rule:
  "(monthlyProjection up \<noteq> None \<longrightarrow> investmentType up = Some Monthly)
   \<and> ((\<exists>m. monthlyAmount up = Some m \<and> m \<noteq> 0) \<and> investmentHorizon up \<noteq> 0 \<longrightarrow>
         (monthlyProjection up \<noteq> None \<longleftrightarrow> investmentType up = Some Monthly))
   \<and> (\<forall>p. monthlyProjection up = Some p \<longrightarrow>
         monthlyAmount up = Some (proj_monthlyAmount p)
         \<and> proj_FV p =
             proj_monthlyAmount p
             * (((1 + 0.07 / 12) powr (investmentHorizon up * 12) - 1) / (0.07 / 12))
             * (1 + 0.07 / 12))
   \<and> projectionOf (generateWith (getETFData yf) mc up amount) = monthlyProjection up
   \<and> weightsOf (generateWith (getETFData yf) mc
         (up\<lparr>investmentHorizon := h, investmentType := t, monthlyAmount := m'\<rparr>) amount)
       = weightsOf (generateWith (getETFData yf) mc up amount)
   \<and> 72010 < futureValue 1000 5 \<and> futureValue 1000 5 < 72011"
proof -
  have a1: "monthlyProjection up \<noteq> None \<longrightarrow> investmentType up = Some Monthly"
    by (auto simp: monthlyProjection_def split: option.splits if_splits)
  have a2: "(\<exists>m. monthlyAmount up = Some m \<and> m \<noteq> 0) \<and> investmentHorizon up \<noteq> 0 \<longrightarrow>
         (monthlyProjection up \<noteq> None \<longleftrightarrow> investmentType up = Some Monthly)"
    by (auto simp: monthlyProjection_def split: option.splits)
  have b: "\<forall>p. monthlyProjection up = Some p \<longrightarrow>
         monthlyAmount up = Some (proj_monthlyAmount p)
         \<and> proj_FV p =
             proj_monthlyAmount p
             * (((1 + 0.07 / 12) powr (investmentHorizon up * 12) - 1) / (0.07 / 12))
             * (1 + 0.07 / 12)"
    by (auto simp: monthlyProjection_def futureValue_def Let_def split: option.splits if_splits)
  have c: "weightsOf (generateWith (getETFData yf) mc
         (up\<lparr>investmentHorizon := h, investmentType := t, monthlyAmount := m'\<rparr>) amount)
       = weightsOf (generateWith (getETFData yf) mc up amount)"
    by (simp only: weightsOf_eq rawTotal_def rawWeights_cong)
  from a1 a2 b c projectionOf_eq [of yf mc up amount] fv_bounds show ?thesis by blast
qed

theorem projection_rule_witness:
  "monthlyAmount (monthlySaver (Some 1000)) = Some 1000
   \<and> investmentHorizon (monthlySaver (Some 1000)) = 5
   \<and> investmentType (monthlySaver (Some 1000)) = Some Monthly
   \<and> monthlyProjection (monthlySaver (Some 1000))
       = Some \<lparr>proj_monthlyAmount = 1000, proj_years = 5, proj_FV = futureValue 1000 5\<rparr>
   \<and> futureValue 1000 5 = 1000 * (((1 + 0.07 / 12) powr (5 * 12) - 1) / (0.07 / 12)) * (1 + 0.07 / 12)
   \<and> projectionOf (generateWith (getETFData outage) calmMarket (monthlySaver (Some 1000)) 1000)
       = Some \<lparr>proj_monthlyAmount = 1000, proj_years = 5, proj_FV = futureValue 1000 5\<rparr>
   \<and> 72010 < futureValue 1000 5 \<and> futureValue 1000 5 < 72011"
proof -
  have p: "monthlyProjection (monthlySaver (Some 1000))
     = Some \<lparr>proj_monthlyAmount = 1000, proj_years = 5, proj_FV = futureValue 1000 5\<rparr>"
    by (simp add: monthlyProjection_def monthlySaver_def)
  have h: "investmentHorizon (monthlySaver (Some 1000)) = 5"
    by (simp add: monthlySaver_def)
  from projection_rule [where up = "monthlySaver (Some 1000)" and yf = outage and mc = calmMarket
      and amount = 1000 and h = 5 and t = None and m' = None] p h
  show ?thesis by (simp add: monthlySaver_def)
qed

text \<open>
  C6 as stated fails on the figure: for 1000 a month over 5 years the engine's projection
  is more than 65 away from 71945.
\<close>

theorem projection_counterexample:
  "projectionOf (generateAdvancedPortfolio outage (monthlySaver (Some 1000)) 1000)
     = Some \<lparr>proj_monthlyAmount = 1000, proj_years = 5, proj_FV = futureValue 1000 5\<rparr>
   \<and> \<not> \<bar>futureValue 1000 5 - 71945\<bar> \<le> 65"
proof -
  have a: "monthlyProjection (monthlySaver (Some 1000))
     = Some \<lparr>proj_monthlyAmount = 1000, proj_years = 5, proj_FV = futureValue 1000 5\<rparr>"
    by (simp add: monthlyProjection_def monthlySaver_def)
  have b: "\<not> \<bar>futureValue 1000 5 - 71945\<bar> \<le> 65" using fv_bounds by simp
  show ?thesis
    using a b by (simp add: generateAdvancedPortfolio_def projectionOf_eq)
qed

text \<open>
  C9, as amended. When either index quote fails, the market conditions are the fallback:
  positive outlook, zero S&P return and no volatility index (the field is absent, which
  the engine treats as not high); the instrument data still has an entry for every
  catalogued name, and the allocation request returns a plan.
\<close>

theorem outage_defaults:
  assumes "quote yf ''^GSPC'' = None \<or> quote yf ''^VIX'' = None"
  shows "getMarketConditions yf =
           \<lparr>globalOutlook = Positive, spReturn = 0, volatilityIndex = None,
            marketAnalysis = \<lparr>mc_description = ''Market data unavailable'', mc_factors = []\<rparr>\<rparr>
         \<and> \<not> highVolatility (getMarketConditions yf)
         \<and> map fst (getETFData yf) = map fst ETF_SYMBOLS
         \<and> (\<exists>r. generateAdvancedPortfolio yf up amount = Inr r)"
proof -
  have mc: "getMarketConditions yf =
           \<lparr>globalOutlook = Positive, spReturn = 0, volatilityIndex = None,
            marketAnalysis = \<lparr>mc_description = ''Market data unavailable'', mc_factors = []\<rparr>\<rparr>"
    using assms by (auto simp: getMarketConditions_def split: option.splits)
  have hv: "\<not> highVolatility (getMarketConditions yf)"
    by (simp add: mc highVolatility_def)
  from generateWith_weights [of yf "getMarketConditions yf" up amount]
  have "\<exists>r. generateAdvancedPortfolio yf up amount = Inr r"
    by (auto simp: generateAdvancedPortfolio_def)
  with mc hv getETFData_keys [of yf] show ?thesis by blast
qed

theorem outage_defaults_witness:
  "(quote outage ''^GSPC'' = None \<or> quote outage ''^VIX'' = None)
   \<and> globalOutlook (getMarketConditions outage) = Positive
   \<and> spReturn (getMarketConditions outage) = 0
   \<and> volatilityIndex (getMarketConditions outage) = None
   \<and> (\<exists>r. generateAdvancedPortfolio outage sampleProfile 10000 = Inr r)"
proof -
  have h: "quote outage ''^GSPC'' = None \<or> quote outage ''^VIX'' = None"
    by (simp add: outage_def)
  from outage_defaults [OF h, of sampleProfile 10000] h show ?thesis by simp
qed

text \<open>
  C9 as stated fails on the volatility: the fallback carries no volatility index, not the
  value zero.
\<close>

theorem outage_volatility_absent:
  "quote outage ''^GSPC'' = None
   \<and> volatilityIndex (getMarketConditions outage) = None
   \<and> volatilityIndex (getMarketConditions outage) \<noteq> Some 0"
  by (simp add: getMarketConditions_outage) (simp add: outage_def)

section \<open>Properties of the intake dialogue\<close>

text \<open>
  C7. For every profile with a pending field and every input that the pending field's
  test rejects, one call returns the profile unchanged, answers with that field's
  re-prompt, and is not final.
\<close>

theorem invalid_input_reprompts:
  assumes "pendingField p = Some f" and "\<not> accepts f input"
  shows "generateBotResponse advise p input = (p, reprompt f)
         \<and> fst (generateBotResponse advise p input) = p
         \<and> \<not> isFinal (fst (generateBotResponse advise p input))"
  using assms pending_step_invalid [OF assms, of advise] by (simp add: isFinal_def)

theorem invalid_input_reprompts_witness:
  "pendingField emptyProfile = Some InvestmentGoal
   \<and> \<not> accepts InvestmentGoal ''abc''
   \<and> generateBotResponse (\<lambda>profile. None) emptyProfile ''abc''
       = (emptyProfile, ''Please enter a valid investment amount (e.g., 10000)'')
   \<and> \<not> isFinal (fst (generateBotResponse (\<lambda>profile. None) emptyProfile ''abc''))"
proof -
  have a: "pendingField emptyProfile = Some InvestmentGoal"
    by (simp add: pendingField_def emptyProfile_def truthyS_def)
  have b: "\<not> accepts InvestmentGoal ''abc''"
    by (simp add: validateAmount_def parseFloat_def isDigit_def)
  from invalid_input_reprompts [OF a b, of "\<lambda>profile. None"] a b show ?thesis
    by (simp add: isFinal_def)
qed

text \<open>
  C8. In every reachable state the fields are filled in the canonical order: a field is
  present only if every field before it is present, the monthly amount is present only
  for a monthly investment, and the dialogue is final exactly when every field required
  for the chosen investment type is present.
\<close>

theorem fields_filled_in_order:
  assumes "reachable p"
  shows "(\<forall>f g. rank f < rank g \<and> isSet g p \<longrightarrow> isSet f p)
         \<and> (isSet MonthlyAmount p \<longrightarrow> p_investmentType p = Some Monthly)
         \<and> (isFinal p \<longleftrightarrow> (\<forall>f \<in> set (requiredFields p). isSet f p))"
proof -
  from assms have i: "inOrder p" by (rule reachable_inOrder)
  have a: "\<forall>f g. rank f < rank g \<and> isSet g p \<longrightarrow> isSet f p"
    using inOrder_prefix [OF i] by blast
  have b: "isSet MonthlyAmount p \<longrightarrow> p_investmentType p = Some Monthly"
    using i by (auto simp: inOrder_def)
  from a b inOrder_final [OF i] show ?thesis by blast
qed

theorem fields_filled_in_order_witness:
  "reachable (run (\<lambda>profile. None) emptyProfile scenarioInputs)
   \<and> isFinal (run (\<lambda>profile. None) emptyProfile scenarioInputs)
   \<and> isSet InvestmentType (run (\<lambda>profile. None) emptyProfile scenarioInputs)
   \<and> isSet InvestmentGoal (run (\<lambda>profile. None) emptyProfile scenarioInputs)
   \<and> \<not> isSet MonthlyAmount (run (\<lambda>profile. None) emptyProfile scenarioInputs)
   \<and> \<not> isFinal (run (\<lambda>profile. None) emptyProfile (take 5 scenarioInputs))"
proof -
  let ?p = "run (\<lambda>profile. None) emptyProfile scenarioInputs"
  have r: "reachable ?p" by (rule reachable_run [OF reachable.start])
  have s: "isSet InvestmentType ?p" "\<not> isSet MonthlyAmount ?p"
    "\<forall>f \<in> set (requiredFields ?p). isSet f ?p"
    by (simp_all add: run_scenario requiredFields_def)
  have q: "rank InvestmentGoal < rank InvestmentType" by simp
  have n: "\<not> isFinal (run (\<lambda>profile. None) emptyProfile (take 5 scenarioInputs))"
    by (simp add: isFinal_def run_scenario_before)
  from fields_filled_in_order [OF r] s q n r show ?thesis by blast
qed

end
